theory Spec2Isabelle
  imports Main "HOL-Library.Word"
begin

section \<open>Data model of \<^verbatim>\<open>main.go\<close>\<close>

text \<open>
  The Go structs become records.  Isabelle record fields are global constants, so every
  field carries a short prefix naming its struct: \<open>vg_\<close> ViewGame, \<open>vgs_\<close>
  ViewGameSettings, \<open>vr_\<close> ViewRuleset, \<open>vf_\<close> ViewFrame, \<open>vs_\<close> ViewSnake,
  \<open>vd_\<close> ViewDeath, \<open>vc_\<close> ViewCoord, and \<open>mgs_\<close> MoveGameState, \<open>mg_\<close>
  MoveGame, \<open>mr_\<close> MoveRuleset, \<open>mst_\<close> MoveSettings, \<open>mry_\<close> MoveRoyale,
  \<open>msq_\<close> MoveSquad, \<open>mb_\<close> MoveBoard, \<open>ms_\<close> MoveBattlesnake, \<open>mc_\<close>
  MoveCoord.  After the prefix the name is the Go field name.

  \<^verbatim>\<open>int32\<close> is a 32-bit word read as two's complement (\<open>sint\<close>); a Go string is a
  byte string (\<open>string\<close>); a slice is a list (Go's nil slice and its empty slice both
  have length 0 and behave alike in every operation modelled here).
\<close>

type_synonym int32 = "32 word"

record ViewCoord =
  vc_X :: int32
  vc_Y :: int32

record ViewDeath =
  vd_Cause :: string
  vd_Turn :: int32
  vd_EliminatedBy :: string

record ViewSnake =
  vs_ID :: string
  vs_Name :: string
  vs_URL :: string
  vs_Body :: "ViewCoord list"
  vs_Health :: int32
  vs_Color :: string
  vs_HeadType :: string
  vs_TailType :: string
  vs_Latency :: string
  vs_Shout :: string
  vs_Squad :: string
  vs_APIVersion :: string
  vs_Author :: string
  vs_Death :: ViewDeath

record ViewFrame =
  vf_Turn :: int32
  vf_Snakes :: "ViewSnake list"
  vf_Food :: "ViewCoord list"
  vf_Hazards :: "ViewCoord list"

record ViewRuleset =
  vr_FoodSpawnChance :: int32
  vr_MinimumFood :: int32
  vr_Name :: string
  vr_Map :: string
  vr_MapAuthor :: string
  vr_DamagePerTurn :: int32

record ViewGameSettings =
  vgs_ID :: string
  vgs_Ruleset :: ViewRuleset
  vgs_Timeout :: int32
  vgs_Status :: string
  vgs_Width :: int32
  vgs_Height :: int32

record ViewGame =
  vg_Game :: ViewGameSettings
  vg_Frames :: "ViewFrame list"
  vg_FirstFrame :: ViewFrame
  vg_LastTurn :: int32

record MoveCoord =
  mc_X :: int32
  mc_Y :: int32

record MoveBattlesnake =
  ms_ID :: string
  ms_Name :: string
  ms_Health :: int32
  ms_Body :: "MoveCoord list"
  ms_Head :: MoveCoord
  ms_Length :: int32
  ms_Latency :: string
  ms_Shout :: string
  ms_Squad :: string

record MoveBoard =
  mb_Height :: int32
  mb_Width :: int32
  mb_Food :: "MoveCoord list"
  mb_Snakes :: "MoveBattlesnake list"
  mb_Hazards :: "MoveCoord list"

record MoveSquad =
  msq_AllowBodyCollisions :: bool
  msq_SharedElimination :: bool
  msq_SharedHealth :: bool
  msq_SharedLength :: bool

record MoveRoyale =
  mry_ShrinkEveryNTurns :: int32

record MoveSettings =
  mst_FoodSpawnChance :: int32
  mst_MinimumFood :: int32
  mst_HazardDamagePerTurn :: int32
  mst_Royale :: MoveRoyale
  mst_Squad :: MoveSquad

record MoveRuleset =
  mr_Name :: string
  mr_Version :: string
  mr_Settings :: MoveSettings

record MoveGame =
  mg_ID :: string
  mg_Ruleset :: MoveRuleset
  mg_Timeout :: int32

record MoveGameState =
  mgs_Game :: MoveGame
  mgs_Turn :: int32
  mgs_Board :: MoveBoard
  mgs_You :: MoveBattlesnake

section \<open>Errors and panics\<close>

text \<open>
  The Go code builds every error from a message (\<^verbatim>\<open>fmt.Errorf\<close>, \<^verbatim>\<open>errors.New\<close>);
  it has no error types.  Each constructor of \<open>error\<close> is one message format of the
  source, its arguments the values formatted into it:
  \<^item> \<open>ErrMarshal e\<close>: "error marshaling ViewGame to json: e"
  \<^item> \<open>ErrZipCreate e\<close>: "error adding file to zip archive: e"
  \<^item> \<open>ErrZipWrite e\<close>: "error writing contents to zip archive: e"
  \<^item> \<open>ErrZipClose e\<close>: "error closing zip archive: e"
  \<^item> \<open>ErrZipReader e\<close>: "error creating new zip reader: e"
  \<^item> \<open>ErrFileCount n\<close>: "expected 1 file in zip archive, found n"
  \<^item> \<open>ErrZipOpen e\<close>: "error opening zip archive file: e"
  \<^item> \<open>ErrZipRead e\<close>: "error reading compressed game: e"
  \<^item> \<open>ErrUnmarshal e\<close>: "error unmarshalling compressed game: e"
  \<^item> \<open>ErrNoFrame t\<close>: "no frame found for turn t"
  \<^item> \<open>ErrNoSnake id\<close>: "no snake ID found matching id"

  A call either returns a value, returns one of these errors (with a nil value), or is
  stopped by a run-time panic.  The only panic the code can raise is the slice index
  check: \<open>IndexOutOfRange i n\<close> is "index out of range [i] with length n".
\<close>

datatype error =
    ErrMarshal string
  | ErrZipCreate string
  | ErrZipWrite string
  | ErrZipClose string
  | ErrZipReader string
  | ErrFileCount nat
  | ErrZipOpen string
  | ErrZipRead string
  | ErrUnmarshal string
  | ErrNoFrame int32
  | ErrNoSnake string

datatype fault =
    Err error
  | IndexOutOfRange int nat

type_synonym 'a result = "fault + 'a"

definition bind :: "'a result \<Rightarrow> ('a \<Rightarrow> 'b result) \<Rightarrow> 'b result" where
  "bind r f = (case r of Inl e \<Rightarrow> Inl e | Inr v \<Rightarrow> f v)"

text \<open>Go's checked slice indexing \<^verbatim>\<open>xs[i]\<close> for an integer index \<open>i\<close>.\<close>

definition index :: "'a list \<Rightarrow> int \<Rightarrow> 'a result" where
  "index xs i =
     (if 0 \<le> i \<and> i < int (length xs) then Inr (xs ! nat i)
      else Inl (IndexOutOfRange i (length xs)))"

section \<open>Translation functions\<close>

text \<open>\<^verbatim>\<open>convertCoord\<close>: the type conversion \<^verbatim>\<open>MoveCoord(c)\<close> copies the two fields.\<close>

definition convertCoord :: "ViewCoord \<Rightarrow> MoveCoord" where
  "convertCoord c = \<lparr>mc_X = vc_X c, mc_Y = vc_Y c\<rparr>"

text \<open>
  \<^verbatim>\<open>convertCoords\<close>: the loop appends one converted coordinate per element to
  \<open>result\<close>, which starts empty.
\<close>

fun convertCoords_loop :: "ViewCoord list \<Rightarrow> MoveCoord list \<Rightarrow> MoveCoord list" where
  "convertCoords_loop [] result = result"
| "convertCoords_loop (c # coords) result =
     convertCoords_loop coords (result @ [\<lparr>mc_X = vc_X c, mc_Y = vc_Y c\<rparr>])"

definition convertCoords :: "ViewCoord list \<Rightarrow> MoveCoord list" where
  "convertCoords coords = convertCoords_loop coords []"

text \<open>
  \<^verbatim>\<open>getFrame\<close>.  Go's \<^verbatim>\<open>int\<close> is taken as 64 bits wide (the width on every 64-bit
  platform): \<^verbatim>\<open>int(turn)\<close> sign-extends the \<^verbatim>\<open>int32\<close> and \<^verbatim>\<open>+1\<close> is 64-bit
  addition.  The slice is then indexed by \<open>turn\<close> itself.
\<close>

definition getFrame :: "ViewGame \<Rightarrow> int32 \<Rightarrow> ViewFrame result" where
  "getFrame game turn =
     (if int (length (vg_Frames game)) < sint ((scast turn :: 64 word) + 1)
      then Inl (Err (ErrNoFrame turn))
      else index (vg_Frames game) (sint turn))"

text \<open>
  The composite literal \<^verbatim>\<open>MoveBattlesnake{...}\<close> that the loop of \<^verbatim>\<open>ToMove\<close>
  writes twice, with the same fields both times.  \<^verbatim>\<open>frameSnake.Body[0]\<close> is a checked
  index; \<^verbatim>\<open>int32(len(...))\<close> keeps the low 32 bits of the length.
\<close>

definition MoveBattlesnake_of :: "ViewSnake \<Rightarrow> MoveBattlesnake result" where
  "MoveBattlesnake_of frameSnake =
     bind (index (vs_Body frameSnake) 0) (\<lambda>body0.
       Inr \<lparr>ms_ID = vs_ID frameSnake,
            ms_Name = vs_Name frameSnake,
            ms_Health = vs_Health frameSnake,
            ms_Body = convertCoords (vs_Body frameSnake),
            ms_Head = convertCoord body0,
            ms_Length = word_of_nat (length (vs_Body frameSnake)),
            ms_Latency = vs_Latency frameSnake,
            ms_Shout = vs_Shout frameSnake,
            ms_Squad = vs_Squad frameSnake\<rparr>)"

text \<open>
  The \<^verbatim>\<open>for ... range frame.Snakes\<close> loop of \<^verbatim>\<open>ToMove\<close>.  Its state is the pair of
  \<open>you\<close> (a pointer, nil at the start: \<open>None\<close>) and \<open>snakes\<close>.
\<close>

fun ToMove_loop ::
  "string \<Rightarrow> ViewSnake list \<Rightarrow> MoveBattlesnake option \<Rightarrow> MoveBattlesnake list
     \<Rightarrow> (MoveBattlesnake option \<times> MoveBattlesnake list) result" where
  "ToMove_loop snakeId [] you snakes = Inr (you, snakes)"
| "ToMove_loop snakeId (frameSnake # rest) you snakes =
     bind (if snakeId = vs_ID frameSnake
           then bind (MoveBattlesnake_of frameSnake) (\<lambda>s. Inr (Some s))
           else Inr you) (\<lambda>you'.
     bind (MoveBattlesnake_of frameSnake) (\<lambda>s.
       ToMove_loop snakeId rest you' (snakes @ [s])))"

definition ToMove :: "ViewGame \<Rightarrow> int32 \<Rightarrow> string \<Rightarrow> MoveGameState result" where
  "ToMove game turn snakeId =
     bind (getFrame game turn) (\<lambda>frame.
     bind (ToMove_loop snakeId (vf_Snakes frame) None []) (\<lambda>(you, snakes).
       case you of
         None \<Rightarrow> Inl (Err (ErrNoSnake snakeId))
       | Some y \<Rightarrow>
           Inr \<lparr>mgs_Game =
                  \<lparr>mg_ID = vgs_ID (vg_Game game),
                   mg_Ruleset =
                     \<lparr>mr_Name = vr_Name (vgs_Ruleset (vg_Game game)),
                      mr_Version = [],
                      mr_Settings =
                        \<lparr>mst_FoodSpawnChance = vr_FoodSpawnChance (vgs_Ruleset (vg_Game game)),
                         mst_MinimumFood = vr_MinimumFood (vgs_Ruleset (vg_Game game)),
                         mst_HazardDamagePerTurn = vr_DamagePerTurn (vgs_Ruleset (vg_Game game)),
                         mst_Royale = \<lparr>mry_ShrinkEveryNTurns = 0\<rparr>,
                         mst_Squad =
                           \<lparr>msq_AllowBodyCollisions = False,
                            msq_SharedElimination = False,
                            msq_SharedHealth = False,
                            msq_SharedLength = False\<rparr>\<rparr>\<rparr>,
                   mg_Timeout = vgs_Timeout (vg_Game game)\<rparr>,
                mgs_Turn = turn,
                mgs_Board =
                  \<lparr>mb_Height = vgs_Height (vg_Game game),
                   mb_Width = vgs_Width (vg_Game game),
                   mb_Food = convertCoords (vf_Food frame),
                   mb_Snakes = snakes,
                   mb_Hazards = convertCoords (vf_Hazards frame)\<rparr>,
                mgs_You = y\<rparr>))"

section \<open>Archive codec\<close>

text \<open>
  \<^verbatim>\<open>Encode\<close> and \<^verbatim>\<open>Decode\<close> call Go's standard library (\<^verbatim>\<open>encoding/json\<close>,
  \<^verbatim>\<open>archive/zip\<close>, \<^verbatim>\<open>io/ioutil\<close>), which is not code of this repository.  The
  library is a parameter \<open>L\<close> of both functions.  Library errors are their messages.

  A \<^verbatim>\<open>[]byte\<close> is a \<open>string\<close> (a list of 8-bit characters).  A
  \<^verbatim>\<open>zip.Writer\<close> is modelled by the archive it has built so far: the ordered list of
  its members, each a name and the data written to it.  \<^verbatim>\<open>Create\<close> adds a member with
  no data, \<^verbatim>\<open>Write\<close> on the writer that \<^verbatim>\<open>Create\<close> returned adds data to the member
  created last, and \<^verbatim>\<open>Close\<close> completes the archive, whose bytes are
  \<open>zip_bytes L\<close> of the member list.  Whether one of these calls reports an error is left
  to the library.  A \<^verbatim>\<open>zip.File\<close> of a reader has a name and the result of \<^verbatim>\<open>Open\<close>;
  the stream \<^verbatim>\<open>Open\<close> returns is modelled by what reading it to the end gives.
\<close>

type_synonym bytes = string

datatype ReadCloser = ReadCloser "string + bytes"

record zip_File =
  zf_Name :: string
  zf_Open :: "string + ReadCloser"

record zip_Writer =
  zw_members :: "(string \<times> bytes) list"

record stdlib =
  json_Marshal :: "ViewGame \<Rightarrow> string + bytes"
  json_Unmarshal :: "bytes \<Rightarrow> string + ViewGame"
  zip_Create_error :: "zip_Writer \<Rightarrow> string \<Rightarrow> string option"
  zip_Write_error :: "zip_Writer \<Rightarrow> bytes \<Rightarrow> string option"
  zip_Close_error :: "zip_Writer \<Rightarrow> string option"
  zip_bytes :: "(string \<times> bytes) list \<Rightarrow> bytes"
  zip_NewReader :: "bytes \<Rightarrow> string + zip_File list"

definition zip_NewWriter :: zip_Writer where
  "zip_NewWriter = \<lparr>zw_members = []\<rparr>"

definition zip_Create :: "stdlib \<Rightarrow> zip_Writer \<Rightarrow> string \<Rightarrow> string + zip_Writer" where
  "zip_Create L w name =
     (case zip_Create_error L w name of
        Some e \<Rightarrow> Inl e
      | None \<Rightarrow> Inr (w\<lparr>zw_members := zw_members w @ [(name, [])]\<rparr>))"

fun write_last :: "(string \<times> bytes) list \<Rightarrow> bytes \<Rightarrow> (string \<times> bytes) list" where
  "write_last [] p = []"
| "write_last [(name, d)] p = [(name, d @ p)]"
| "write_last (m # ms) p = m # write_last ms p"

definition zip_Write :: "stdlib \<Rightarrow> zip_Writer \<Rightarrow> bytes \<Rightarrow> string + zip_Writer" where
  "zip_Write L w p =
     (case zip_Write_error L w p of
        Some e \<Rightarrow> Inl e
      | None \<Rightarrow> Inr (w\<lparr>zw_members := write_last (zw_members w) p\<rparr>))"

definition zip_Close :: "stdlib \<Rightarrow> zip_Writer \<Rightarrow> string + bytes" where
  "zip_Close L w =
     (case zip_Close_error L w of
        Some e \<Rightarrow> Inl e
      | None \<Rightarrow> Inr (zip_bytes L (zw_members w)))"

fun ioutil_ReadAll :: "ReadCloser \<Rightarrow> string + bytes" where
  "ioutil_ReadAll (ReadCloser r) = r"

text \<open>
  \<^verbatim>\<open>Encode\<close> returns an error or nil and writes to \<open>buf\<close>.  The model returns the
  error, or on nil the new contents of \<open>buf\<close>: what it held, followed by the archive.
\<close>

definition Encode :: "stdlib \<Rightarrow> ViewGame \<Rightarrow> bytes \<Rightarrow> bytes result" where
  "Encode L game buf =
     (case json_Marshal L game of
        Inl e \<Rightarrow> Inl (Err (ErrMarshal e))
      | Inr contents \<Rightarrow>
     (case zip_Create L zip_NewWriter ''game.json'' of
        Inl e \<Rightarrow> Inl (Err (ErrZipCreate e))
      | Inr f \<Rightarrow>
     (case zip_Write L f contents of
        Inl e \<Rightarrow> Inl (Err (ErrZipWrite e))
      | Inr w \<Rightarrow>
     (case zip_Close L w of
        Inl e \<Rightarrow> Inl (Err (ErrZipClose e))
      | Inr archive \<Rightarrow> Inr (buf @ archive)))))"

text \<open>
  \<^verbatim>\<open>Decode\<close>.  \<^verbatim>\<open>json.Unmarshal\<close> fills a fresh zero \<^verbatim>\<open>ViewGame\<close>, so its result
  depends on the bytes alone.
\<close>

definition Decode :: "stdlib \<Rightarrow> bytes \<Rightarrow> ViewGame result" where
  "Decode L data =
     (case zip_NewReader L data of
        Inl e \<Rightarrow> Inl (Err (ErrZipReader e))
      | Inr files \<Rightarrow>
          if length files \<noteq> 1 then Inl (Err (ErrFileCount (length files)))
          else bind (index files 0) (\<lambda>file0.
            case zf_Open file0 of
              Inl e \<Rightarrow> Inl (Err (ErrZipOpen e))
            | Inr rc \<Rightarrow>
           (case ioutil_ReadAll rc of
              Inl e \<Rightarrow> Inl (Err (ErrZipRead e))
            | Inr unzipped \<Rightarrow>
           (case json_Unmarshal L unzipped of
              Inl e \<Rightarrow> Inl (Err (ErrUnmarshal e))
            | Inr game \<Rightarrow> Inr game))))"

section \<open>Notions used in the statements\<close>

text \<open>
  A call "returned an error" when its result is an error value of the source; a panic is
  not one.
\<close>

definition is_error :: "'a result \<Rightarrow> bool" where
  "is_error r = (case r of Inl (Err e) \<Rightarrow> True | _ \<Rightarrow> False)"

text \<open>
  The value \<open>you\<close> holds after the loop of \<^verbatim>\<open>ToMove\<close> has built the entries \<open>ms\<close>:
  each matching snake overwrites it, so it is the last entry with the identity asked for,
  and it keeps its starting value when there is none.
\<close>

definition last_match :: "string \<Rightarrow> MoveBattlesnake option \<Rightarrow> MoveBattlesnake list \<Rightarrow> MoveBattlesnake option" where
  "last_match snakeId you ms =
     (if filter (\<lambda>m. ms_ID m = snakeId) ms = [] then you
      else Some (last (filter (\<lambda>m. ms_ID m = snakeId) ms)))"


definition zip_reads_back :: "stdlib \<Rightarrow> (string \<times> bytes) list \<Rightarrow> bool" where
  "zip_reads_back L members =
     (case zip_NewReader L (zip_bytes L members) of
        Inl e \<Rightarrow> False
      | Inr files \<Rightarrow>
          map (\<lambda>f. (zf_Name f, zf_Open f)) files
            = map (\<lambda>(name, d). (name, Inr (ReadCloser (Inr d)))) members)"

section \<open>Example data\<close>

text \<open>
  A game of three frames (turns 0 to 2) with the snakes \<open>a\<close> and \<open>b\<close>, in that order,
  in every frame; and a game whose only frame holds a snake with an empty body.
\<close>

definition example_snake :: "string \<Rightarrow> ViewCoord list \<Rightarrow> ViewSnake" where
  "example_snake snakeId body =
     \<lparr>vs_ID = snakeId, vs_Name = ''snake '' @ snakeId, vs_URL = [], vs_Body = body,
      vs_Health = 90, vs_Color = ''#00ff00'', vs_HeadType = [], vs_TailType = [],
      vs_Latency = ''42'', vs_Shout = [], vs_Squad = [], vs_APIVersion = ''1'',
      vs_Author = [], vs_Death = \<lparr>vd_Cause = [], vd_Turn = 0, vd_EliminatedBy = []\<rparr>\<rparr>"

definition example_frame :: "int32 \<Rightarrow> ViewSnake list \<Rightarrow> ViewFrame" where
  "example_frame t snakes =
     \<lparr>vf_Turn = t, vf_Snakes = snakes, vf_Food = [\<lparr>vc_X = 5, vc_Y = 5\<rparr>], vf_Hazards = []\<rparr>"

definition example_game :: "ViewFrame list \<Rightarrow> ViewGame" where
  "example_game frames =
     \<lparr>vg_Game =
        \<lparr>vgs_ID = ''game-1'',
         vgs_Ruleset =
           \<lparr>vr_FoodSpawnChance = 25, vr_MinimumFood = 1, vr_Name = ''standard'',
            vr_Map = ''standard'', vr_MapAuthor = [], vr_DamagePerTurn = 14\<rparr>,
         vgs_Timeout = 500, vgs_Status = ''complete'', vgs_Width = 11, vgs_Height = 11\<rparr>,
      vg_Frames = frames,
      vg_FirstFrame = example_frame 0 [],
      vg_LastTurn = 2\<rparr>"

definition scenario_game :: ViewGame where
  "scenario_game =
     example_game
       [example_frame 0 [example_snake ''a'' [\<lparr>vc_X = 1, vc_Y = 1\<rparr>],
                         example_snake ''b'' [\<lparr>vc_X = 9, vc_Y = 9\<rparr>]],
        example_frame 1 [example_snake ''a'' [\<lparr>vc_X = 1, vc_Y = 2\<rparr>],
                         example_snake ''b'' [\<lparr>vc_X = 9, vc_Y = 8\<rparr>]],
        example_frame 2 [example_snake ''a'' [\<lparr>vc_X = 1, vc_Y = 3\<rparr>, \<lparr>vc_X = 1, vc_Y = 2\<rparr>],
                         example_snake ''b'' [\<lparr>vc_X = 9, vc_Y = 7\<rparr>]]]"

definition empty_body_game :: ViewGame where
  "empty_body_game = example_game [example_frame 0 [example_snake ''a'' []]]"

text \<open>
  A record with no frames, a JSON document for it in the archival schema, and an instance
  of the library interface that knows this one document.  Its archives are not
  zip files: a member is written as its name, a colon, its data and a semicolon, and the
  reader recognises four archives.  No call of its writer reports an error.
\<close>

definition stored_game :: ViewGame where
  "stored_game = example_game []"

definition stored_json :: bytes where
  \<open>stored_json = ''{"Game":{"ID":"game-1","Ruleset":{"foodSpawnChance":"25","minimumFood":"1","name":"standard","map":"standard","map_author":"","damagePerTurn":"14"},"SnakeTimeout":500,"Status":"complete","Width":11,"Height":11},"Frames":[],"FirstFrame":{"Turn":0,"Snakes":[],"Food":[{"X":5,"Y":5}],"Hazards":[]},"LastTurn":2}''\<close>

definition toy_archive :: "(string \<times> bytes) list \<Rightarrow> bytes" where
  "toy_archive members = concat (map (\<lambda>(name, d). name @ '':'' @ d @ '';'') members)"

definition example_stdlib :: stdlib where
  "example_stdlib =
     \<lparr>json_Marshal = (\<lambda>g. if g = stored_game then Inr stored_json
                           else Inl ''json: unsupported value''),
      json_Unmarshal = (\<lambda>b. if b = stored_json then Inr stored_game
                             else Inl ''unexpected end of JSON input''),
      zip_Create_error = (\<lambda>w name. None),
      zip_Write_error = (\<lambda>w p. None),
      zip_Close_error = (\<lambda>w. None),
      zip_bytes = toy_archive,
      zip_NewReader = (\<lambda>b.
        if b = toy_archive [(''game.json'', stored_json)]
        then Inr [\<lparr>zf_Name = ''game.json'', zf_Open = Inr (ReadCloser (Inr stored_json))\<rparr>]
        else if b = toy_archive [(''replay.dat'', stored_json)]
        then Inr [\<lparr>zf_Name = ''replay.dat'', zf_Open = Inr (ReadCloser (Inr stored_json))\<rparr>]
        else if b = toy_archive [(''a'', ''1''), (''b'', ''2'')]
        then Inr [\<lparr>zf_Name = ''a'', zf_Open = Inr (ReadCloser (Inr ''1''))\<rparr>,
                  \<lparr>zf_Name = ''b'', zf_Open = Inr (ReadCloser (Inr ''2''))\<rparr>]
        else if b = toy_archive []
        then Inr []
        else Inl ''zip: not a valid zip file'')\<rparr>"

section \<open>Coordinate conversion\<close>

lemma convertCoords_loop_eq:
  "convertCoords_loop coords result = result @ map convertCoord coords"
  by (induction coords arbitrary: result) (simp_all add: convertCoord_def)

lemma convertCoords_eq_map: "convertCoords coords = map convertCoord coords"
  by (simp add: convertCoords_def convertCoords_loop_eq)

section \<open>Locating the frame\<close>

text \<open>
  The 64-bit sum \<^verbatim>\<open>int(turn)+1\<close> cannot overflow, so \<^verbatim>\<open>getFrame\<close> has three outcomes:
  a negative turn passes the length test and reaches the slice index, which panics; a turn
  below the length gives that frame; any other turn gives the error.
\<close>

lemma sint_int_turn: "sint (scast (turn :: 32 word) :: 64 word) = sint turn"
  by (rule sint_up_scast) (simp add: is_up)

lemma sint_int_turn_plus_1: "sint ((scast (turn :: 32 word) :: 64 word) + 1) = sint turn + 1"
proof -
  have lo: "- (2 ^ 31) \<le> sint turn" using sint_ge [of turn] by simp
  have hi: "sint turn < 2 ^ 31" using sint_lt [of turn] by simp
  have "sint ((scast turn :: 64 word) + 1) = signed_take_bit 63 (sint turn + 1)"
    by (simp add: sint_word_ariths sint_int_turn)
  also have "\<dots> = sint turn + 1"
    by (rule signed_take_bit_int_eq_self) (use lo hi in simp_all)
  finally show ?thesis .
qed

lemma index_0_eq: "index xs 0 = (case xs of [] \<Rightarrow> Inl (IndexOutOfRange 0 0) | x # _ \<Rightarrow> Inr x)"
  by (cases xs) (simp_all add: index_def)

lemma getFrame_eq:
  "getFrame game turn =
     (if sint turn < 0 then Inl (IndexOutOfRange (sint turn) (length (vg_Frames game)))
      else if sint turn < int (length (vg_Frames game))
      then Inr (vg_Frames game ! nat (sint turn))
      else Inl (Err (ErrNoFrame turn)))"
  by (simp add: getFrame_def sint_int_turn_plus_1 index_def)

lemma getFrame_Inr:
  "getFrame game turn = Inr frame \<longleftrightarrow>
     0 \<le> sint turn \<and> sint turn < int (length (vg_Frames game))
       \<and> frame = vg_Frames game ! nat (sint turn)"
  by (auto simp: getFrame_eq)

section \<open>The loop of \<^verbatim>\<open>ToMove\<close>\<close>

lemma bind_Inr_iff: "bind r f = Inr y \<longleftrightarrow> (\<exists>v. r = Inr v \<and> f v = Inr y)"
  by (cases r) (simp_all add: bind_def)

lemma bind_Inl: "bind (Inl e) f = Inl e"
  by (simp add: bind_def)

lemma bind_Inr: "bind (Inr v) f = f v"
  by (simp add: bind_def)

lemma MoveBattlesnake_of_empty:
  "vs_Body v = [] \<Longrightarrow> MoveBattlesnake_of v = Inl (IndexOutOfRange 0 0)"
  by (simp add: MoveBattlesnake_of_def index_0_eq bind_Inl)

lemma MoveBattlesnake_of_nonempty:
  "vs_Body v \<noteq> [] \<Longrightarrow> \<exists>m. MoveBattlesnake_of v = Inr m"
  by (cases "vs_Body v") (simp_all add: MoveBattlesnake_of_def index_0_eq bind_Inr)

lemma MoveBattlesnake_of_Inr:
  assumes "MoveBattlesnake_of v = Inr m"
  shows "vs_Body v \<noteq> []"
    and "m = \<lparr>ms_ID = vs_ID v, ms_Name = vs_Name v, ms_Health = vs_Health v,
               ms_Body = map convertCoord (vs_Body v), ms_Head = convertCoord (vs_Body v ! 0),
               ms_Length = word_of_nat (length (vs_Body v)), ms_Latency = vs_Latency v,
               ms_Shout = vs_Shout v, ms_Squad = vs_Squad v\<rparr>"
  using assms
  by (cases "vs_Body v"; simp add: MoveBattlesnake_of_def index_0_eq bind_Inl bind_Inr
        convertCoords_eq_map; blast)+

lemma MoveBattlesnake_of_ID: "MoveBattlesnake_of v = Inr m \<Longrightarrow> ms_ID m = vs_ID v"
  by (drule MoveBattlesnake_of_Inr(2)) simp

lemma ToMove_loop_Inr:
  "ToMove_loop snakeId fss you acc = Inr (you', snakes') \<Longrightarrow>
     \<exists>ms. snakes' = acc @ ms
        \<and> list_all2 (\<lambda>v m. MoveBattlesnake_of v = Inr m) fss ms
        \<and> you' = last_match snakeId you ms"
proof (induction fss arbitrary: you acc)
  case Nil
  then show ?case by (simp add: last_match_def)
next
  case (Cons v rest)
  from Cons.prems obtain s where s: "MoveBattlesnake_of v = Inr s"
    by (cases "MoveBattlesnake_of v") (auto simp: bind_def split: if_splits)
  let ?you1 = "if snakeId = vs_ID v then Some s else you"
  from Cons.prems s have "ToMove_loop snakeId rest ?you1 (acc @ [s]) = Inr (you', snakes')"
    by (simp add: bind_def split: if_splits)
  from Cons.IH [OF this] obtain ms' where ms':
    "snakes' = (acc @ [s]) @ ms'"
    "list_all2 (\<lambda>v m. MoveBattlesnake_of v = Inr m) rest ms'"
    "you' = last_match snakeId ?you1 ms'"
    by blast
  have "you' = last_match snakeId you (s # ms')"
    using ms'(3) MoveBattlesnake_of_ID [OF s] by (auto simp: last_match_def)
  with ms'(1,2) s show ?case
    by (intro exI [of _ "s # ms'"]) simp
qed


lemma ToMove_loop_empty_body:
  "\<exists>v \<in> set fss. vs_Body v = [] \<Longrightarrow>
     ToMove_loop snakeId fss you acc = Inl (IndexOutOfRange 0 0)"
proof (induction fss arbitrary: you acc)
  case Nil
  then show ?case by simp
next
  case (Cons v rest)
  show ?case
  proof (cases "vs_Body v = []")
    case True
    then show ?thesis by (simp add: MoveBattlesnake_of_empty bind_def)
  next
    case False
    then obtain s where s: "MoveBattlesnake_of v = Inr s"
      using MoveBattlesnake_of_nonempty by blast
    from False Cons.prems have "\<exists>v \<in> set rest. vs_Body v = []" by auto
    from Cons.IH [OF this] show ?thesis by (simp add: s bind_def)
  qed
qed

lemma ToMove_Inr:
  assumes "ToMove game turn snakeId = Inr p"
  obtains frame you snakes where
    "getFrame game turn = Inr frame"
    "ToMove_loop snakeId (vf_Snakes frame) None [] = Inr (Some you, snakes)"
    "mgs_Game p =
       \<lparr>mg_ID = vgs_ID (vg_Game game),
        mg_Ruleset =
          \<lparr>mr_Name = vr_Name (vgs_Ruleset (vg_Game game)),
           mr_Version = [],
           mr_Settings =
             \<lparr>mst_FoodSpawnChance = vr_FoodSpawnChance (vgs_Ruleset (vg_Game game)),
              mst_MinimumFood = vr_MinimumFood (vgs_Ruleset (vg_Game game)),
              mst_HazardDamagePerTurn = vr_DamagePerTurn (vgs_Ruleset (vg_Game game)),
              mst_Royale = \<lparr>mry_ShrinkEveryNTurns = 0\<rparr>,
              mst_Squad =
                \<lparr>msq_AllowBodyCollisions = False,
                 msq_SharedElimination = False,
                 msq_SharedHealth = False,
                 msq_SharedLength = False\<rparr>\<rparr>\<rparr>,
        mg_Timeout = vgs_Timeout (vg_Game game)\<rparr>"
    "mgs_Turn p = turn"
    "mgs_Board p =
       \<lparr>mb_Height = vgs_Height (vg_Game game),
        mb_Width = vgs_Width (vg_Game game),
        mb_Food = convertCoords (vf_Food frame),
        mb_Snakes = snakes,
        mb_Hazards = convertCoords (vf_Hazards frame)\<rparr>"
    "mgs_You p = you"
proof -
  from assms obtain frame where f: "getFrame game turn = Inr frame"
    by (cases "getFrame game turn") (simp_all add: ToMove_def bind_def)
  from assms f obtain you' snakes where
    l: "ToMove_loop snakeId (vf_Snakes frame) None [] = Inr (you', snakes)"
    by (cases "ToMove_loop snakeId (vf_Snakes frame) None []")
       (auto simp: ToMove_def bind_def)
  from assms f l obtain you where y: "you' = Some you"
    by (cases you') (simp_all add: ToMove_def bind_def)
  from assms f l y have
    "p = \<lparr>mgs_Game =
                  \<lparr>mg_ID = vgs_ID (vg_Game game),
                   mg_Ruleset =
                     \<lparr>mr_Name = vr_Name (vgs_Ruleset (vg_Game game)),
                      mr_Version = [],
                      mr_Settings =
                        \<lparr>mst_FoodSpawnChance = vr_FoodSpawnChance (vgs_Ruleset (vg_Game game)),
                         mst_MinimumFood = vr_MinimumFood (vgs_Ruleset (vg_Game game)),
                         mst_HazardDamagePerTurn = vr_DamagePerTurn (vgs_Ruleset (vg_Game game)),
                         mst_Royale = \<lparr>mry_ShrinkEveryNTurns = 0\<rparr>,
                         mst_Squad =
                           \<lparr>msq_AllowBodyCollisions = False,
                            msq_SharedElimination = False,
                            msq_SharedHealth = False,
                            msq_SharedLength = False\<rparr>\<rparr>\<rparr>,
                   mg_Timeout = vgs_Timeout (vg_Game game)\<rparr>,
                mgs_Turn = turn,
                mgs_Board =
                  \<lparr>mb_Height = vgs_Height (vg_Game game),
                   mb_Width = vgs_Width (vg_Game game),
                   mb_Food = convertCoords (vf_Food frame),
                   mb_Snakes = snakes,
                   mb_Hazards = convertCoords (vf_Hazards frame)\<rparr>,
                mgs_You = you\<rparr>"
    by (simp add: ToMove_def bind_def)
  with f l y that show thesis by simp
qed


lemma list_all2_ID:
  "list_all2 (\<lambda>v m. MoveBattlesnake_of v = Inr m) fss ms \<Longrightarrow> map ms_ID ms = map vs_ID fss"
  by (induction rule: list_all2_induct) (simp_all add: MoveBattlesnake_of_ID)





lemmas example_defs =
  scenario_game_def example_game_def example_frame_def example_snake_def

lemma scenario_frame_2:
  "getFrame scenario_game 2 =
     Inr (example_frame 2 [example_snake ''a'' [\<lparr>vc_X = 1, vc_Y = 3\<rparr>, \<lparr>vc_X = 1, vc_Y = 2\<rparr>],
                           example_snake ''b'' [\<lparr>vc_X = 9, vc_Y = 7\<rparr>]])"
  by (simp add: getFrame_eq scenario_game_def example_game_def)

section \<open>The codec\<close>

lemma Encode_eq:
  "Encode L game buf =
     (case json_Marshal L game of
        Inl e \<Rightarrow> Inl (Err (ErrMarshal e))
      | Inr contents \<Rightarrow>
     (case zip_Create_error L \<lparr>zw_members = []\<rparr> ''game.json'' of
        Some e \<Rightarrow> Inl (Err (ErrZipCreate e))
      | None \<Rightarrow>
     (case zip_Write_error L \<lparr>zw_members = [(''game.json'', [])]\<rparr> contents of
        Some e \<Rightarrow> Inl (Err (ErrZipWrite e))
      | None \<Rightarrow>
     (case zip_Close_error L \<lparr>zw_members = [(''game.json'', contents)]\<rparr> of
        Some e \<Rightarrow> Inl (Err (ErrZipClose e))
      | None \<Rightarrow> Inr (buf @ zip_bytes L [(''game.json'', contents)])))))"
  by (auto simp: Encode_def zip_NewWriter_def zip_Create_def zip_Write_def zip_Close_def
        split: sum.splits option.splits)

lemma Encode_Inr:
  assumes "Encode L game buf = Inr out"
  obtains contents where "json_Marshal L game = Inr contents"
    and "out = buf @ zip_bytes L [(''game.json'', contents)]"
  using assms unfolding Encode_eq by (auto split: sum.splits option.splits)

lemma Decode_one_file:
  assumes "zip_NewReader L data = Inr [file]"
  shows "Decode L data =
     (case zf_Open file of
        Inl e \<Rightarrow> Inl (Err (ErrZipOpen e))
      | Inr rc \<Rightarrow>
     (case ioutil_ReadAll rc of
        Inl e \<Rightarrow> Inl (Err (ErrZipRead e))
      | Inr unzipped \<Rightarrow>
     (case json_Unmarshal L unzipped of
        Inl e \<Rightarrow> Inl (Err (ErrUnmarshal e))
      | Inr game \<Rightarrow> Inr game)))"
  using assms by (simp add: Decode_def index_def bind_def)

lemma zip_reads_back_single:
  assumes "zip_reads_back L [(name, d)]"
  obtains zfile where "zip_NewReader L (zip_bytes L [(name, d)]) = Inr [zfile]"
    and "zf_Name zfile = name" and "zf_Open zfile = Inr (ReadCloser (Inr d))"
  using assms unfolding zip_reads_back_def
  by (auto split: sum.splits simp: map_eq_Cons_conv)

lemma example_Encode:
  "Encode example_stdlib stored_game [] = Inr (toy_archive [(''game.json'', stored_json)])"
  by (simp add: Encode_eq example_stdlib_def)

lemma example_NewReader:
  "zip_NewReader example_stdlib (toy_archive [(''game.json'', stored_json)])
     = Inr [\<lparr>zf_Name = ''game.json'', zf_Open = Inr (ReadCloser (Inr stored_json))\<rparr>]"
  by (simp add: example_stdlib_def)

lemma example_NewReader_two:
  "zip_NewReader example_stdlib (toy_archive [(''a'', ''1''), (''b'', ''2'')])
     = Inr [\<lparr>zf_Name = ''a'', zf_Open = Inr (ReadCloser (Inr ''1''))\<rparr>,
            \<lparr>zf_Name = ''b'', zf_Open = Inr (ReadCloser (Inr ''2''))\<rparr>]"
  by (simp add: example_stdlib_def toy_archive_def stored_json_def)

lemma example_NewReader_none:
  "zip_NewReader example_stdlib (toy_archive []) = Inr []"
  by (simp add: example_stdlib_def toy_archive_def)

lemma example_NewReader_other:
  "zip_NewReader example_stdlib (toy_archive [(''replay.dat'', stored_json)])
     = Inr [\<lparr>zf_Name = ''game.json'', zf_Open = Inr (ReadCloser (Inr stored_json))\<rparr>
              \<lparr>zf_Name := ''replay.dat''\<rparr>]"
  by (simp add: example_stdlib_def toy_archive_def)

section \<open>Turn lookup\<close>

lemma ToMove_negative_turn:
  "sint turn < 0 \<Longrightarrow>
     ToMove game turn snakeId = Inl (IndexOutOfRange (sint turn) (length (vg_Frames game)))"
  by (simp add: ToMove_def getFrame_eq bind_def)

lemma ToMove_turn_too_large:
  "int (length (vg_Frames game)) \<le> sint turn \<Longrightarrow>
     ToMove game turn snakeId = Inl (Err (ErrNoFrame turn))"
  by (simp add: ToMove_def getFrame_eq bind_def)

lemma scenario_A: "ToMove scenario_game 5 ''a'' = Inl (Err (ErrNoFrame 5))"
  by (simp add: ToMove_turn_too_large example_defs)

text \<open>
  C1.  The claim: \<^verbatim>\<open>ToMove\<close> locates a frame exactly for the turns \<open>0 \<le> t < N\<close>,
  and fails with the "no frame found" error for \<open>t \<ge> N\<close> and for every negative \<open>t\<close>.
  The first two parts hold (\<open>getFrame_Inr\<close>, \<open>ToMove_turn_too_large\<close>).  The
  length test of \<^verbatim>\<open>getFrame\<close> misses the negative turns: on the game of three frames,
  turn \<open>-1\<close> passes the test (\<open>3 < 0\<close> is false), the slice is indexed by \<open>-1\<close>, and
  the call ends in the panic "index out of range [-1]" with no error returned.
\<close>

theorem ToMove_negative_turn_panics:
  "ToMove scenario_game (- 1) ''a'' = Inl (IndexOutOfRange (- 1) 3)
   \<and> \<not> is_error (ToMove scenario_game (- 1) ''a'')"
  by (simp add: ToMove_negative_turn [of "- 1"] is_error_def example_defs)

section \<open>Snake entries\<close>

text \<open>
  C2, as the claim states it, fails: with a snake of empty body in the located frame
  \<^verbatim>\<open>ToMove\<close> returns no error at all.  The game \<open>empty_body_game\<close> has one frame with
  one snake \<open>a\<close> whose body is empty; \<^verbatim>\<open>frameSnake.Body[0]\<close> panics with "index out
  of range [0] with length 0".
\<close>

theorem ToMove_empty_body_counterexample:
  "getFrame empty_body_game 0 = Inr (example_frame 0 [example_snake ''a'' []])
   \<and> vs_Body (example_snake ''a'' []) = []
   \<and> ToMove empty_body_game 0 ''a'' = Inl (IndexOutOfRange 0 0)
   \<and> \<not> is_error (ToMove empty_body_game 0 ''a'')"
  by (simp add: ToMove_def getFrame_eq bind_def empty_body_game_def example_defs
        MoveBattlesnake_of_def index_def is_error_def)

text \<open>
  C2, amended.  \<^verbatim>\<open>ToMove\<close> does not validate bodies and has no error for an empty
  one.  If the located frame contains a snake with an empty body, the checked index
  \<^verbatim>\<open>Body[0]\<close> stops the call with the panic "index out of range [0] with length 0":
  nothing past the end of the list is read, and neither a payload nor an error is
  returned.  Whenever \<^verbatim>\<open>ToMove\<close> returns a payload, every snake of the frame has a
  non-empty body, and the head of every board entry, and of \<open>you\<close>, is the first
  converted coordinate of its body.
\<close>

theorem ToMove_head_is_first_body_coordinate:
  assumes "getFrame game turn = Inr frame"
  shows "((\<exists>v \<in> set (vf_Snakes frame). vs_Body v = []) \<longrightarrow>
            ToMove game turn snakeId = Inl (IndexOutOfRange 0 0))
       \<and> (\<forall>p. ToMove game turn snakeId = Inr p \<longrightarrow>
            list_all2 (\<lambda>v m. vs_Body v \<noteq> [] \<and> ms_Body m = convertCoords (vs_Body v)
                          \<and> ms_Head m = convertCoords (vs_Body v) ! 0)
              (vf_Snakes frame) (mb_Snakes (mgs_Board p))
            \<and> ms_Body (mgs_You p) \<noteq> []
            \<and> ms_Head (mgs_You p) = ms_Body (mgs_You p) ! 0)"
proof (intro conjI impI allI)
  assume "\<exists>v \<in> set (vf_Snakes frame). vs_Body v = []"
  from ToMove_loop_empty_body [OF this] assms
  show "ToMove game turn snakeId = Inl (IndexOutOfRange 0 0)"
    by (simp add: ToMove_def bind_def)
next
  fix p assume p: "ToMove game turn snakeId = Inr p"
  from p obtain frame' you snakes where
    f: "getFrame game turn = Inr frame'"
    and l: "ToMove_loop snakeId (vf_Snakes frame') None [] = Inr (Some you, snakes)"
    and b: "mb_Snakes (mgs_Board p) = snakes" and y: "mgs_You p = you"
    by (rule ToMove_Inr) simp
  from f assms have [simp]: "frame' = frame" by simp
  from ToMove_loop_Inr [OF l] have
    all2: "list_all2 (\<lambda>v m. MoveBattlesnake_of v = Inr m) (vf_Snakes frame) snakes"
    and lm: "Some you = last_match snakeId None snakes" by auto
  have step: "vs_Body v \<noteq> [] \<and> ms_Body m = convertCoords (vs_Body v)
                \<and> ms_Head m = convertCoords (vs_Body v) ! 0"
    if "MoveBattlesnake_of v = Inr m" for v m
    using MoveBattlesnake_of_Inr [OF that] by (simp add: convertCoords_eq_map)
  from all2 show "list_all2 (\<lambda>v m. vs_Body v \<noteq> [] \<and> ms_Body m = convertCoords (vs_Body v)
                          \<and> ms_Head m = convertCoords (vs_Body v) ! 0)
              (vf_Snakes frame) (mb_Snakes (mgs_Board p))"
    unfolding b by (rule list_all2_mono) (rule step)
  from lm have "you \<in> set snakes"
    by (auto simp: last_match_def split: if_splits dest: last_in_set)
  with all2 obtain v where "MoveBattlesnake_of v = Inr you"
    by (auto simp: list_all2_conv_all_nth in_set_conv_nth)
  from step [OF this] show "ms_Body (mgs_You p) \<noteq> []"
    and "ms_Head (mgs_You p) = ms_Body (mgs_You p) ! 0"
    by (simp_all add: y convertCoords_eq_map)
qed

text \<open>
  C2, amended, on the two example games: the empty body panics; on turn 2 of the scenario
  game the heads are the first body coordinates.
\<close>

theorem ToMove_head_is_first_body_coordinate_witness:
  "getFrame empty_body_game 0 = Inr (example_frame 0 [example_snake ''a'' []])
   \<and> (\<exists>v \<in> set (vf_Snakes (example_frame 0 [example_snake ''a'' []])). vs_Body v = [])
   \<and> ToMove empty_body_game 0 ''a'' = Inl (IndexOutOfRange 0 0)
   \<and> (\<exists>p. ToMove scenario_game 2 ''b'' = Inr p
        \<and> ms_Body (mgs_You p) = [\<lparr>mc_X = 9, mc_Y = 7\<rparr>]
        \<and> ms_Head (mgs_You p) = ms_Body (mgs_You p) ! 0
        \<and> map ms_Head (mb_Snakes (mgs_Board p)) = [\<lparr>mc_X = 1, mc_Y = 3\<rparr>, \<lparr>mc_X = 9, mc_Y = 7\<rparr>])"
proof -
  have f: "getFrame empty_body_game 0 = Inr (example_frame 0 [example_snake ''a'' []])"
    by (simp add: getFrame_eq empty_body_game_def example_defs)
  have e: "\<exists>v \<in> set (vf_Snakes (example_frame 0 [example_snake ''a'' []])). vs_Body v = []"
    by (simp add: example_defs)
  have r: "\<exists>p. ToMove scenario_game 2 ''b'' = Inr p
        \<and> ms_Body (mgs_You p) = [\<lparr>mc_X = 9, mc_Y = 7\<rparr>]
        \<and> map ms_Head (mb_Snakes (mgs_Board p)) = [\<lparr>mc_X = 1, mc_Y = 3\<rparr>, \<lparr>mc_X = 9, mc_Y = 7\<rparr>]"
    by (simp add: ToMove_def getFrame_eq bind_def example_defs MoveBattlesnake_of_def
          index_def convertCoords_def convertCoord_def)
  from ToMove_head_is_first_body_coordinate [OF f, of "''a''"] e
  have 1: "ToMove empty_body_game 0 ''a'' = Inl (IndexOutOfRange 0 0)" by iprover
  from r obtain p where p: "ToMove scenario_game 2 ''b'' = Inr p"
    and pb: "ms_Body (mgs_You p) = [\<lparr>mc_X = 9, mc_Y = 7\<rparr>]"
    and ph: "map ms_Head (mb_Snakes (mgs_Board p)) = [\<lparr>mc_X = 1, mc_Y = 3\<rparr>, \<lparr>mc_X = 9, mc_Y = 7\<rparr>]"
    by iprover
  from ToMove_head_is_first_body_coordinate [OF scenario_frame_2, of "''b''"] p
  have "ms_Head (mgs_You p) = ms_Body (mgs_You p) ! 0" by iprover
  with p pb ph have 2: "\<exists>p. ToMove scenario_game 2 ''b'' = Inr p
        \<and> ms_Body (mgs_You p) = [\<lparr>mc_X = 9, mc_Y = 7\<rparr>]
        \<and> ms_Head (mgs_You p) = ms_Body (mgs_You p) ! 0
        \<and> map ms_Head (mb_Snakes (mgs_Board p)) = [\<lparr>mc_X = 1, mc_Y = 3\<rparr>, \<lparr>mc_X = 9, mc_Y = 7\<rparr>]"
    by (intro exI [of _ p] conjI)
  from f e 1 2 show ?thesis by (intro conjI)
qed

section \<open>Identity resolution\<close>





section \<open>The board's snake list\<close>

text \<open>
  C7.  When \<^verbatim>\<open>ToMove\<close> succeeds the turn is in range, and the board's snake list has
  one entry for each snake of that turn's frame, position by position: the entry at a
  position is the one built from the frame's snake at the same position, so the lengths
  agree and the identities appear in the frame's order.
\<close>

theorem ToMove_board_snakes_in_frame_order:
  assumes "ToMove game turn snakeId = Inr p"
  shows "0 \<le> sint turn \<and> sint turn < int (length (vg_Frames game))
       \<and> length (mb_Snakes (mgs_Board p)) = length (vf_Snakes (vg_Frames game ! nat (sint turn)))
       \<and> list_all2 (\<lambda>v m. MoveBattlesnake_of v = Inr m)
            (vf_Snakes (vg_Frames game ! nat (sint turn))) (mb_Snakes (mgs_Board p))
       \<and> map ms_ID (mb_Snakes (mgs_Board p)) = map vs_ID (vf_Snakes (vg_Frames game ! nat (sint turn)))"
proof -
  from assms obtain frame you snakes where
    f: "getFrame game turn = Inr frame"
    and l: "ToMove_loop snakeId (vf_Snakes frame) None [] = Inr (Some you, snakes)"
    and b: "mb_Snakes (mgs_Board p) = snakes"
    by (rule ToMove_Inr) simp
  from f have r: "0 \<le> sint turn" "sint turn < int (length (vg_Frames game))"
    and fr: "frame = vg_Frames game ! nat (sint turn)"
    by (simp_all add: getFrame_Inr)
  from ToMove_loop_Inr [OF l] have
    all2: "list_all2 (\<lambda>v m. MoveBattlesnake_of v = Inr m) (vf_Snakes frame) snakes" by auto
  from all2 have len: "length snakes = length (vf_Snakes frame)"
    by (simp add: list_all2_lengthD)
  from r all2 len list_all2_ID [OF all2] show ?thesis
    unfolding b fr by (intro conjI)
qed

text \<open>
  C7 on the scenario game (Scenario B): turn 2, snake \<open>b\<close>; two entries, in the order
  \<open>a\<close>, \<open>b\<close>.
\<close>

theorem ToMove_board_snakes_in_frame_order_witness:
  "\<exists>p. ToMove scenario_game 2 ''b'' = Inr p
     \<and> length (mb_Snakes (mgs_Board p)) = 2
     \<and> map ms_ID (mb_Snakes (mgs_Board p)) = [''a'', ''b'']
     \<and> map ms_ID (mb_Snakes (mgs_Board p)) = map vs_ID (vf_Snakes (vg_Frames scenario_game ! nat (sint (2 :: int32))))"
proof -
  have "\<exists>p. ToMove scenario_game 2 ''b'' = Inr p
     \<and> length (mb_Snakes (mgs_Board p)) = 2
     \<and> map ms_ID (mb_Snakes (mgs_Board p)) = [''a'', ''b'']"
    by (simp add: ToMove_def getFrame_eq bind_def example_defs MoveBattlesnake_of_def index_def)
  then obtain p where p: "ToMove scenario_game 2 ''b'' = Inr p"
    and n: "length (mb_Snakes (mgs_Board p)) = 2"
    and i: "map ms_ID (mb_Snakes (mgs_Board p)) = [''a'', ''b'']"
    by iprover
  from ToMove_board_snakes_in_frame_order [OF p]
  have "map ms_ID (mb_Snakes (mgs_Board p)) = map vs_ID (vf_Snakes (vg_Frames scenario_game ! nat (sint (2 :: int32))))"
    by iprover
  with p n i show ?thesis by (intro exI [of _ p] conjI)
qed

text \<open>
  C8.  \<^verbatim>\<open>convertCoord\<close> carries X and Y through unchanged, and \<^verbatim>\<open>convertCoords\<close>
  returns the list of the converted elements, each at the position of its original, of the
  same length.  Both are total functions with no failure.
\<close>

theorem convertCoord_convertCoords_faithful:
  "mc_X (convertCoord c) = vc_X c \<and> mc_Y (convertCoord c) = vc_Y c
   \<and> length (convertCoords coords) = length coords
   \<and> convertCoords coords = map convertCoord coords"
  by (simp add: convertCoord_def convertCoords_eq_map)

section \<open>Game-level fields\<close>

text \<open>
  C9.  In every payload \<^verbatim>\<open>ToMove\<close> returns, the game id, the ruleset name, the
  timeout and the three settings come from the record's settings, and the royale and
  squad settings are zero values: 0 and false.
\<close>

theorem ToMove_game_fields:
  assumes "ToMove game turn snakeId = Inr p"
  shows "mg_ID (mgs_Game p) = vgs_ID (vg_Game game)
       \<and> mr_Name (mg_Ruleset (mgs_Game p)) = vr_Name (vgs_Ruleset (vg_Game game))
       \<and> mg_Timeout (mgs_Game p) = vgs_Timeout (vg_Game game)
       \<and> mst_FoodSpawnChance (mr_Settings (mg_Ruleset (mgs_Game p)))
           = vr_FoodSpawnChance (vgs_Ruleset (vg_Game game))
       \<and> mst_MinimumFood (mr_Settings (mg_Ruleset (mgs_Game p)))
           = vr_MinimumFood (vgs_Ruleset (vg_Game game))
       \<and> mst_HazardDamagePerTurn (mr_Settings (mg_Ruleset (mgs_Game p)))
           = vr_DamagePerTurn (vgs_Ruleset (vg_Game game))
       \<and> mst_Royale (mr_Settings (mg_Ruleset (mgs_Game p))) = \<lparr>mry_ShrinkEveryNTurns = 0\<rparr>
       \<and> mst_Squad (mr_Settings (mg_Ruleset (mgs_Game p)))
           = \<lparr>msq_AllowBodyCollisions = False, msq_SharedElimination = False,
              msq_SharedHealth = False, msq_SharedLength = False\<rparr>"
proof -
  from assms obtain g where "mgs_Game p = g" and
    "g = \<lparr>mg_ID = vgs_ID (vg_Game game),
        mg_Ruleset =
          \<lparr>mr_Name = vr_Name (vgs_Ruleset (vg_Game game)),
           mr_Version = [],
           mr_Settings =
             \<lparr>mst_FoodSpawnChance = vr_FoodSpawnChance (vgs_Ruleset (vg_Game game)),
              mst_MinimumFood = vr_MinimumFood (vgs_Ruleset (vg_Game game)),
              mst_HazardDamagePerTurn = vr_DamagePerTurn (vgs_Ruleset (vg_Game game)),
              mst_Royale = \<lparr>mry_ShrinkEveryNTurns = 0\<rparr>,
              mst_Squad =
                \<lparr>msq_AllowBodyCollisions = False,
                 msq_SharedElimination = False,
                 msq_SharedHealth = False,
                 msq_SharedLength = False\<rparr>\<rparr>\<rparr>,
        mg_Timeout = vgs_Timeout (vg_Game game)\<rparr>"
    by (rule ToMove_Inr) simp
  then show ?thesis by simp
qed

text \<open>
  C9 on the scenario game.
\<close>

theorem ToMove_game_fields_witness:
  "\<exists>p. ToMove scenario_game 2 ''b'' = Inr p
     \<and> mg_ID (mgs_Game p) = ''game-1''
     \<and> mr_Name (mg_Ruleset (mgs_Game p)) = ''standard''
     \<and> mg_Timeout (mgs_Game p) = 500
     \<and> mst_FoodSpawnChance (mr_Settings (mg_Ruleset (mgs_Game p))) = 25
     \<and> mst_MinimumFood (mr_Settings (mg_Ruleset (mgs_Game p))) = 1
     \<and> mst_HazardDamagePerTurn (mr_Settings (mg_Ruleset (mgs_Game p))) = 14
     \<and> mry_ShrinkEveryNTurns (mst_Royale (mr_Settings (mg_Ruleset (mgs_Game p)))) = 0
     \<and> \<not> msq_SharedHealth (mst_Squad (mr_Settings (mg_Ruleset (mgs_Game p))))"
proof -
  have "\<exists>p. ToMove scenario_game 2 ''b'' = Inr p"
    by (simp add: ToMove_def getFrame_eq bind_def example_defs MoveBattlesnake_of_def index_def)
  then obtain p where p: "ToMove scenario_game 2 ''b'' = Inr p" by iprover
  from ToMove_game_fields [OF p] have
    "mg_ID (mgs_Game p) = ''game-1''
     \<and> mr_Name (mg_Ruleset (mgs_Game p)) = ''standard''
     \<and> mg_Timeout (mgs_Game p) = 500
     \<and> mst_FoodSpawnChance (mr_Settings (mg_Ruleset (mgs_Game p))) = 25
     \<and> mst_MinimumFood (mr_Settings (mg_Ruleset (mgs_Game p))) = 1
     \<and> mst_HazardDamagePerTurn (mr_Settings (mg_Ruleset (mgs_Game p))) = 14
     \<and> mry_ShrinkEveryNTurns (mst_Royale (mr_Settings (mg_Ruleset (mgs_Game p)))) = 0
     \<and> \<not> msq_SharedHealth (mst_Squad (mr_Settings (mg_Ruleset (mgs_Game p))))"
    by (simp add: example_defs)
  with p show ?thesis by (intro exI [of _ p] conjI) simp_all
qed

section \<open>Encoding and decoding\<close>



text \<open>
  C4.  When \<^verbatim>\<open>Encode\<close> succeeds, what it appended to the buffer is the archive of
  exactly one member, named \<^verbatim>\<open>game.json\<close>, holding the JSON of the record; read back
  from an empty buffer it lists one file of that name.  When the bytes open as an archive
  whose file count is not 1, \<^verbatim>\<open>Decode\<close> returns the error "expected 1 file in zip
  archive, found n" and no record.
\<close>

theorem Encode_one_member_Decode_file_count:
  "(Encode L game buf = Inr out \<longrightarrow>
      (\<exists>members contents. out = buf @ zip_bytes L members
         \<and> members = [(''game.json'', contents)]
         \<and> length members = 1 \<and> map fst members = [''game.json'']
         \<and> json_Marshal L game = Inr contents
         \<and> (buf = [] \<and> zip_reads_back L members \<longrightarrow>
              (\<exists>zfile. zip_NewReader L out = Inr [zfile] \<and> zf_Name zfile = ''game.json''))))
   \<and> (zip_NewReader L data = Inr files \<and> length files \<noteq> 1 \<longrightarrow>
        Decode L data = Inl (Err (ErrFileCount (length files))))"
proof (intro conjI impI)
  assume "Encode L game buf = Inr out"
  then obtain contents where m: "json_Marshal L game = Inr contents"
    and o: "out = buf @ zip_bytes L [(''game.json'', contents)]"
    by (rule Encode_Inr)
  have "buf = [] \<and> zip_reads_back L [(''game.json'', contents)] \<longrightarrow>
          (\<exists>zfile. zip_NewReader L out = Inr [zfile] \<and> zf_Name zfile = ''game.json'')"
  proof
    assume a: "buf = [] \<and> zip_reads_back L [(''game.json'', contents)]"
    then have "zip_reads_back L [(''game.json'', contents)]" ..
    then obtain zfile where "zip_NewReader L (zip_bytes L [(''game.json'', contents)]) = Inr [zfile]"
      and "zf_Name zfile = ''game.json''"
      by (rule zip_reads_back_single)
    with a o show "\<exists>zfile. zip_NewReader L out = Inr [zfile] \<and> zf_Name zfile = ''game.json''"
      by simp
  qed
  with m o show "\<exists>members contents. out = buf @ zip_bytes L members
         \<and> members = [(''game.json'', contents)]
         \<and> length members = 1 \<and> map fst members = [''game.json'']
         \<and> json_Marshal L game = Inr contents
         \<and> (buf = [] \<and> zip_reads_back L members \<longrightarrow>
              (\<exists>zfile. zip_NewReader L out = Inr [zfile] \<and> zf_Name zfile = ''game.json''))"
    by simp
next
  assume "zip_NewReader L data = Inr files \<and> length files \<noteq> 1"
  then show "Decode L data = Inl (Err (ErrFileCount (length files)))"
    by (simp add: Decode_def)
qed

text \<open>
  C4 on the example library: the encoded record, an archive with no member and one with
  two.
\<close>

theorem Encode_one_member_Decode_file_count_witness:
  "Encode example_stdlib stored_game [] = Inr (toy_archive [(''game.json'', stored_json)])
   \<and> zip_reads_back example_stdlib [(''game.json'', stored_json)]
   \<and> (\<exists>zfile. zip_NewReader example_stdlib (toy_archive [(''game.json'', stored_json)]) = Inr [zfile]
         \<and> zf_Name zfile = ''game.json'')
   \<and> zip_NewReader example_stdlib (toy_archive []) = Inr []
   \<and> Decode example_stdlib (toy_archive []) = Inl (Err (ErrFileCount 0))
   \<and> Decode example_stdlib (toy_archive [(''a'', ''1''), (''b'', ''2'')]) = Inl (Err (ErrFileCount 2))"
proof -
  have z: "zip_reads_back example_stdlib [(''game.json'', stored_json)]"
    by (simp add: zip_reads_back_def example_NewReader) (simp add: example_stdlib_def)
  have m: "json_Marshal example_stdlib stored_game = Inr stored_json"
    by (simp add: example_stdlib_def)
  have b: "zip_bytes example_stdlib = toy_archive" by (simp add: example_stdlib_def)
  from Encode_one_member_Decode_file_count
         [where L = example_stdlib and game = stored_game and buf = "[]"
            and out = "toy_archive [(''game.json'', stored_json)]", THEN conjunct1]
       example_Encode z m
  have 1: "\<exists>zfile. zip_NewReader example_stdlib (toy_archive [(''game.json'', stored_json)]) = Inr [zfile]
         \<and> zf_Name zfile = ''game.json''"
    by (auto simp: b)
  from Encode_one_member_Decode_file_count
         [where L = example_stdlib and data = "toy_archive []" and files = "[]", THEN conjunct2]
       example_NewReader_none
  have 2: "Decode example_stdlib (toy_archive []) = Inl (Err (ErrFileCount 0))" by simp
  from Encode_one_member_Decode_file_count
         [where L = example_stdlib and data = "toy_archive [(''a'', ''1''), (''b'', ''2'')]"
            and files = "[\<lparr>zf_Name = ''a'', zf_Open = Inr (ReadCloser (Inr ''1''))\<rparr>,
                          \<lparr>zf_Name = ''b'', zf_Open = Inr (ReadCloser (Inr ''2''))\<rparr>]",
          THEN conjunct2]
       example_NewReader_two
  have 3: "Decode example_stdlib (toy_archive [(''a'', ''1''), (''b'', ''2'')]) = Inl (Err (ErrFileCount 2))"
    by simp
  from example_Encode z 1 example_NewReader_none 2 3 show ?thesis by (intro conjI)
qed

text \<open>
  C10.  \<^verbatim>\<open>Decode\<close> does not look at the name of the member: when the archive has one
  file, whatever its name, that opens and reads to bytes which unmarshal to a record,
  \<^verbatim>\<open>Decode\<close> returns that record.
\<close>

theorem Decode_ignores_member_name:
  assumes "zip_NewReader L data = Inr [zfile\<lparr>zf_Name := name\<rparr>]"
    and "zf_Open zfile = Inr rc"
    and "ioutil_ReadAll rc = Inr unzipped"
    and "json_Unmarshal L unzipped = Inr game"
  shows "Decode L data = Inr game"
  using assms(2-4) by (simp add: Decode_one_file [OF assms(1)])

text \<open>
  C10 on the example library: a member named \<^verbatim>\<open>replay.dat\<close>.
\<close>

theorem Decode_ignores_member_name_witness:
  "zip_NewReader example_stdlib (toy_archive [(''replay.dat'', stored_json)])
     = Inr [\<lparr>zf_Name = ''game.json'', zf_Open = Inr (ReadCloser (Inr stored_json))\<rparr>
              \<lparr>zf_Name := ''replay.dat''\<rparr>]
   \<and> ioutil_ReadAll (ReadCloser (Inr stored_json)) = Inr stored_json
   \<and> json_Unmarshal example_stdlib stored_json = Inr stored_game
   \<and> Decode example_stdlib (toy_archive [(''replay.dat'', stored_json)]) = Inr stored_game"
proof -
  have o: "zf_Open \<lparr>zf_Name = ''game.json'', zf_Open = Inr (ReadCloser (Inr stored_json))\<rparr>
             = Inr (ReadCloser (Inr stored_json))" by simp
  have r: "ioutil_ReadAll (ReadCloser (Inr stored_json)) = Inr stored_json" by simp
  have u: "json_Unmarshal example_stdlib stored_json = Inr stored_game"
    by (simp add: example_stdlib_def)
  from example_NewReader_other r u
       Decode_ignores_member_name [OF example_NewReader_other o r u]
  show ?thesis by (intro conjI)
qed

end
